theory Spec2Isabelle
  imports Main "HOL-Library.Sublist"
begin

section \<open>Strings\<close>

text \<open>
  Python strings are modelled as \<open>string\<close> holding the UTF-8 bytes of the text. The
  program only concatenates strings, tests them for emptiness and removes the ASCII
  character \<open>@\<close>; none of these can tell bytes from code points (every byte of a
  multi-byte UTF-8 sequence is at least \<open>0x80\<close>).
\<close>

definition NL :: string where
  "NL = [CHR 0x0A]"

definition cherry_blossom :: string where
  \<comment> \<open>U+1F338\<close>
  "cherry_blossom = [CHR 0xF0, CHR 0x9F, CHR 0x8C, CHR 0xB8]"

definition dizzy :: string where
  \<comment> \<open>U+1F4AB\<close>
  "dizzy = [CHR 0xF0, CHR 0x9F, CHR 0x92, CHR 0xAB]"

definition game_die :: string where
  \<comment> \<open>U+1F3B2\<close>
  "game_die = [CHR 0xF0, CHR 0x9F, CHR 0x8E, CHR 0xB2]"

definition question_mark :: string where
  \<comment> \<open>U+2753\<close>
  "question_mark = [CHR 0xE2, CHR 0x9D, CHR 0x93]"

definition palette :: string where
  \<comment> \<open>U+1F3A8\<close>
  "palette = [CHR 0xF0, CHR 0x9F, CHR 0x8E, CHR 0xA8]"

definition sparkles :: string where
  \<comment> \<open>U+2728\<close>
  "sparkles = [CHR 0xE2, CHR 0x9C, CHR 0xA8]"

definition camera_flash :: string where
  \<comment> \<open>U+1F4F8\<close>
  "camera_flash = [CHR 0xF0, CHR 0x9F, CHR 0x93, CHR 0xB8]"

definition backhand_down :: string where
  \<comment> \<open>U+1F447\<close>
  "backhand_down = [CHR 0xF0, CHR 0x9F, CHR 0x91, CHR 0x87]"

definition robot_face :: string where
  \<comment> \<open>U+1F916\<close>
  "robot_face = [CHR 0xF0, CHR 0x9F, CHR 0xA4, CHR 0x96]"

definition bullet :: string where
  \<comment> \<open>U+2022\<close>
  "bullet = [CHR 0xE2, CHR 0x80, CHR 0xA2]"

definition py_or :: "string \<Rightarrow> string \<Rightarrow> string" where
  \<comment> \<open>Python's \<open>s or d\<close> on strings: the empty string is falsy.\<close>
  "py_or s d = (if s = [] then d else s)"

definition remove_at :: "string \<Rightarrow> string" where
  \<comment> \<open>\<open>s.replace('@', '')\<close>\<close>
  "remove_at s = filter (\<lambda>c. c \<noteq> CHR ''@'') s"

section \<open>Configuration (bot.py, lines 21--36)\<close>

record config =
  BOT_TOKEN :: string
  PEXELS_API_KEY :: string
  MAIN_CHANNEL :: string
  BACKUP_CHANNEL :: string
  MAIN_CHANNEL_NAME :: string
  BACKUP_CHANNEL_NAME :: string

type_synonym environ = "string \<rightharpoonup> string"

definition getenv :: "environ \<Rightarrow> string \<Rightarrow> string \<Rightarrow> string" where
  \<comment> \<open>\<open>os.getenv(name, default)\<close>: the default only replaces a variable that is not set.\<close>
  "getenv env name dflt = (case env name of None \<Rightarrow> dflt | Some v \<Rightarrow> v)"

definition not_set :: "string option \<Rightarrow> bool" where
  \<comment> \<open>\<open>not os.getenv(name)\<close>: the variable is missing (\<open>None\<close>) or empty.\<close>
  "not_set v = (case v of None \<Rightarrow> True | Some s \<Rightarrow> s = [])"

definition load_config :: "environ \<Rightarrow> int + config" where
  \<comment> \<open>The module's start-up code; \<open>Inl c\<close> is \<open>exit(c)\<close>.\<close>
  "load_config env =
     (if not_set (env ''TELEGRAM_BOT_TOKEN'') then Inl 1
      else if not_set (env ''PEXELS_API_KEY'') then Inl 1
      else Inr \<lparr>BOT_TOKEN = getenv env ''TELEGRAM_BOT_TOKEN'' [],
                PEXELS_API_KEY = getenv env ''PEXELS_API_KEY'' [],
                MAIN_CHANNEL = getenv env ''MAIN_CHANNEL_USERNAME'' ''@your_main_channel'',
                BACKUP_CHANNEL = getenv env ''BACKUP_CHANNEL_USERNAME'' ''@your_backup_channel'',
                MAIN_CHANNEL_NAME = getenv env ''MAIN_CHANNEL_NAME'' ''Main Anime Channel'',
                BACKUP_CHANNEL_NAME = getenv env ''BACKUP_CHANNEL_NAME'' ''Backup Anime Channel''\<rparr>)"

section \<open>User directory (bot.py, lines 71--80)\<close>

type_synonym user_db = "int \<rightharpoonup> string"

definition store_user :: "int \<Rightarrow> string \<Rightarrow> user_db \<Rightarrow> user_db" where
  \<comment> \<open>\<open>user_db[chat_id] = user_name\<close>; the global dictionary is passed and returned.\<close>
  "store_user chat_id user_name db = db(chat_id \<mapsto> user_name)"

definition get_user_name :: "int \<Rightarrow> user_db \<Rightarrow> string \<times> user_db" where
  \<comment> \<open>\<open>user_db.get(chat_id, "User")\<close>: the value read, and the dictionary after the call.\<close>
  "get_user_name chat_id db = ((case db chat_id of None \<Rightarrow> ''User'' | Some n \<Rightarrow> n), db)"

section \<open>Inline keyboard (bot.py, lines 139--151)\<close>

record inline_keyboard_button =
  btn_text :: string
  btn_url :: "string option"
  btn_callback_data :: "string option"

type_synonym inline_keyboard_markup = "inline_keyboard_button list list"

definition create_channel_keyboard :: "config \<Rightarrow> inline_keyboard_markup" where
  "create_channel_keyboard cfg =
     [[\<lparr>btn_text = cherry_blossom @ '' '' @ MAIN_CHANNEL_NAME cfg,
        btn_url = Some (''https://t.me/'' @ remove_at (MAIN_CHANNEL cfg)),
        btn_callback_data = None\<rparr>,
       \<lparr>btn_text = dizzy @ '' '' @ BACKUP_CHANNEL_NAME cfg,
        btn_url = Some (''https://t.me/'' @ remove_at (BACKUP_CHANNEL cfg)),
        btn_callback_data = None\<rparr>],
      [\<lparr>btn_text = game_die @ '' Get Another Image'',
        btn_url = None,
        btn_callback_data = Some ''get_random''\<rparr>,
       \<lparr>btn_text = question_mark @ '' Help'',
        btn_url = None,
        btn_callback_data = Some ''help''\<rparr>]]"

section \<open>Python values and errors\<close>

text \<open>
  A decoded JSON document, as \<open>response.json()\<close> returns it. An object is the list of
  the entries of the decoded dictionary (each key once) and \<open>map_of\<close> is the lookup. \<open>JNum\<close> stands for a number: the
  program only tests a number for being zero, and every other operation it applies to
  one fails in the same way for integers and floats.
\<close>

datatype json =
    JNull
  | JBool bool
  | JNum int
  | JStr string
  | JArr "json list"
  | JObj "(string \<times> json) list"

datatype py_error =
    AttributeError
  | TypeError
  | KeyError
  | IndexError
  | UnboundLocalError
  | JSONDecodeError
  | NoImageData
  | TelegramError

fun py_truthy :: "json \<Rightarrow> bool" where
  "py_truthy JNull = False"
| "py_truthy (JBool b) = b"
| "py_truthy (JNum n) = (n \<noteq> 0)"
| "py_truthy (JStr s) = (s \<noteq> [])"
| "py_truthy (JArr xs) = (xs \<noteq> [])"
| "py_truthy (JObj kvs) = (kvs \<noteq> [])"

fun dict_get :: "json \<Rightarrow> string \<Rightarrow> json \<Rightarrow> py_error + json" where
  \<comment> \<open>\<open>d.get(key, default)\<close>: only a dictionary has the method.\<close>
  "dict_get (JObj kvs) key dflt = Inr (case map_of kvs key of None \<Rightarrow> dflt | Some v \<Rightarrow> v)"
| "dict_get _ key dflt = Inl AttributeError"

fun subscript :: "json \<Rightarrow> string \<Rightarrow> py_error + json" where
  \<comment> \<open>\<open>d[key]\<close> with a string key.\<close>
  "subscript (JObj kvs) key = (case map_of kvs key of None \<Rightarrow> Inl KeyError | Some v \<Rightarrow> Inr v)"
| "subscript _ key = Inl TypeError"

fun py_len :: "json \<Rightarrow> py_error + nat" where
  "py_len (JStr s) = Inr (length s)"
| "py_len (JArr xs) = Inr (length xs)"
| "py_len (JObj kvs) = Inr (length kvs)"
| "py_len _ = Inl TypeError"

section \<open>Random draws\<close>

text \<open>
  Every call of the \<open>random\<close> module takes its draw \<open>r\<close> from the environment; the
  result depends on \<open>r\<close> only through its residue modulo the number of outcomes.
\<close>

definition randint :: "int \<Rightarrow> int \<Rightarrow> nat \<Rightarrow> int" where
  \<comment> \<open>\<open>random.randint(lo, hi)\<close>, for \<open>lo \<le> hi\<close>\<close>
  "randint lo hi r = lo + int (r mod nat (hi - lo + 1))"

fun random_choice :: "json \<Rightarrow> nat \<Rightarrow> py_error + json" where
  \<comment> \<open>\<open>random.choice(seq)\<close> is \<open>seq[i]\<close> for a drawn index \<open>i < len(seq)\<close>: an element of
      a list, a one-character string of a string, \<open>KeyError\<close> on a dictionary decoded from
      JSON (it has no integer key), \<open>IndexError\<close> on an empty sequence.\<close>
  "random_choice (JArr xs) r = (if xs = [] then Inl IndexError else Inr (xs ! (r mod length xs)))"
| "random_choice (JStr s) r = (if s = [] then Inl IndexError else Inr (JStr [s ! (r mod length s)]))"
| "random_choice (JObj kvs) r = (if kvs = [] then Inl IndexError else Inl KeyError)"
| "random_choice _ r = Inl TypeError"

section \<open>Image resolver (bot.py, lines 38--137)\<close>

record image =
  url :: json
  photographer :: json
  alt :: json

definition ANIME_SEARCH_TERMS :: "string list" where
  "ANIME_SEARCH_TERMS =
     [''anime girl'', ''manga art'', ''japanese art'', ''anime character'',
      ''kawaii'', ''otaku'', ''anime style'', ''manga girl'', ''japanese illustration'',
      ''anime artwork'', ''cosplay'', ''japanese culture'', ''anime portrait'',
      ''manga style'', ''japanese animation'', ''anime aesthetic'', ''waifu'',
      ''anime wallpaper'', ''manga character'', ''japanese anime'']"

definition FALLBACK_IMAGES :: "image list" where
  "FALLBACK_IMAGES =
     [\<lparr>url = JStr ''https://images.pexels.com/photos/1591447/pexels-photo-1591447.jpeg?auto=compress&cs=tinysrgb&w=1260&h=750&dpr=1'',
       photographer = JStr ''Pexels'',
       alt = JStr ''Beautiful anime-style artwork''\<rparr>,
      \<lparr>url = JStr ''https://images.pexels.com/photos/1591373/pexels-photo-1591373.jpeg?auto=compress&cs=tinysrgb&w=1260&h=750&dpr=1'',
       photographer = JStr ''Pexels'',
       alt = JStr ''Japanese art style illustration''\<rparr>,
      \<lparr>url = JStr ''https://images.pexels.com/photos/1591056/pexels-photo-1591056.jpeg?auto=compress&cs=tinysrgb&w=1260&h=750&dpr=1'',
       photographer = JStr ''Pexels'',
       alt = JStr ''Manga-style character art''\<rparr>,
      \<lparr>url = JStr ''https://images.pexels.com/photos/2693212/pexels-photo-2693212.jpeg?auto=compress&cs=tinysrgb&w=1260&h=750&dpr=1'',
       photographer = JStr ''Pexels'',
       alt = JStr ''Anime aesthetic wallpaper''\<rparr>]"

definition get_random_search_term :: "nat \<Rightarrow> string" where
  "get_random_search_term r = ANIME_SEARCH_TERMS ! (r mod length ANIME_SEARCH_TERMS)"

definition get_fallback_image :: "nat \<Rightarrow> image" where
  "get_fallback_image r = FALLBACK_IMAGES ! (r mod length FALLBACK_IMAGES)"

record search_request =
  endpoint :: string
  authorization :: string
  search_query :: string
  per_page :: int
  page :: int
  orientation :: string
  timeout :: int

text \<open>
  What \<open>requests.get\<close> does: it raises (connection error, timeout), or it returns a
  response with a status code and a body; the body is \<open>None\<close> when \<open>response.json()\<close>
  raises on it.
\<close>

datatype http_result =
    Raised
  | Response int "json option"

text \<open>
  The environment of one handler run: the random draws, the answer of the image search,
  whether each call of the messaging API returns or raises (one field per call site, each
  site runs at most once in a run), and how the interpreter prints a value that is not a
  string inside an f-string.
\<close>

record world =
  term_draw :: nat
  page_draw :: nat
  photo_draw :: nat
  fallback_draw :: nat
  http :: http_result
  answer_result :: "py_error option"
  placeholder_result :: "py_error + int"
  delete_result :: "py_error option"
  photo_result :: "py_error option"
  cleanup_result :: "py_error option"
  handler_fallback_draw :: nat
  degraded_result :: "py_error option"
  edit_result :: "py_error option"
  str_other :: "json \<Rightarrow> string"

definition make_request :: "config \<Rightarrow> world \<Rightarrow> search_request" where
  \<comment> \<open>lines 93--114: the arguments of \<open>requests.get\<close>\<close>
  "make_request cfg w =
     \<lparr>endpoint = ''https://api.pexels.com/v1/search'',
      authorization = PEXELS_API_KEY cfg,
      search_query = get_random_search_term (term_draw w),
      per_page = 20,
      page = randint 1 10 (page_draw w),
      orientation = ''all'',
      timeout = 10\<rparr>"

definition photo_to_image :: "json \<Rightarrow> py_error + image" where
  \<comment> \<open>lines 123--127: the dictionary built from \<open>random_photo\<close>\<close>
  "photo_to_image random_photo =
     (case subscript random_photo ''src'' of
        Inl e \<Rightarrow> Inl e
      | Inr src \<Rightarrow>
          (case subscript src ''large'' of
             Inl e \<Rightarrow> Inl e
           | Inr large \<Rightarrow>
               (case subscript random_photo ''photographer'' of
                  Inl e \<Rightarrow> Inl e
                | Inr ph \<Rightarrow>
                    (case dict_get random_photo ''alt'' (JStr ''Anime-style image'') of
                       Inl e \<Rightarrow> Inl e
                     | Inr a \<Rightarrow> Inr \<lparr>url = large, photographer = ph, alt = a\<rparr>))))"

definition read_response :: "world \<Rightarrow> int \<Rightarrow> json option \<Rightarrow> py_error + image" where
  \<comment> \<open>lines 116--133, inside the \<open>try\<close>: \<open>Inl\<close> is an exception raised there\<close>
  "read_response w status_code body =
     (if status_code = 200 then
        (case body of
           None \<Rightarrow> Inl JSONDecodeError
         | Some data \<Rightarrow>
             (case dict_get data ''photos'' JNull of
                Inl e \<Rightarrow> Inl e
              | Inr photos \<Rightarrow>
                  if py_truthy photos then
                    (case py_len photos of
                       Inl e \<Rightarrow> Inl e
                     | Inr n \<Rightarrow>
                         if n > 0 then
                           (case random_choice photos (photo_draw w) of
                              Inl e \<Rightarrow> Inl e
                            | Inr random_photo \<Rightarrow> photo_to_image random_photo)
                         else Inr (get_fallback_image (fallback_draw w)))
                  else Inr (get_fallback_image (fallback_draw w))))
      else Inr (get_fallback_image (fallback_draw w)))"

definition fetch_anime_image :: "config \<Rightarrow> world \<Rightarrow> search_request list \<times> image" where
  \<comment> \<open>The requests sent, and the dictionary returned; \<open>except Exception\<close> catches
      whatever the \<open>try\<close> raises.\<close>
  "fetch_anime_image cfg w =
     ([make_request cfg w],
      (case http w of
         Raised \<Rightarrow> get_fallback_image (fallback_draw w)
       | Response status_code body \<Rightarrow>
           (case read_response w status_code body of
              Inl e \<Rightarrow> get_fallback_image (fallback_draw w)
            | Inr image_data \<Rightarrow> image_data)))"

section \<open>Messaging API\<close>

text \<open>
  The objects of the messaging library that the handlers read. An \<open>Update\<close> has the
  attributes \<open>effective_chat\<close> and \<open>effective_user\<close> (each may be \<open>None\<close>); a
  \<open>CallbackQuery\<close> has \<open>from_user\<close> and \<open>data\<close>, and neither of the two attributes of
  an \<open>Update\<close>: reading one from it raises \<open>AttributeError\<close>.
\<close>

record tg_user =
  first_name :: string

record tg_chat =
  ident :: int

record tg_callback_query =
  from_user :: tg_user
  data :: "string option"

record tg_update =
  effective_chat :: "tg_chat option"
  effective_user :: "tg_user option"
  callback_query :: "tg_callback_query option"

datatype handler_arg =
    UpdateArg tg_update
  | QueryArg tg_callback_query

text \<open>The calls a handler makes to its collaborators, in the order it makes them.\<close>

datatype action =
    Answer
  | SendMessage int string
  | Search search_request
  | DeleteMessage int int
  | SendPhoto int json string inline_keyboard_markup
  | EditMessageCaption string inline_keyboard_markup

record run =
  db_after :: user_db
  trace :: "action list"
  raised :: "py_error option"

fun effective_chat_id :: "handler_arg \<Rightarrow> py_error + int" where
  \<comment> \<open>\<open>update.effective_chat.id\<close>\<close>
  "effective_chat_id (UpdateArg u) =
     (case effective_chat u of None \<Rightarrow> Inl AttributeError | Some c \<Rightarrow> Inr (ident c))"
| "effective_chat_id (QueryArg q) = Inl AttributeError"

fun effective_first_name :: "handler_arg \<Rightarrow> py_error + string" where
  \<comment> \<open>\<open>update.effective_user.first_name\<close>\<close>
  "effective_first_name (UpdateArg u) =
     (case effective_user u of None \<Rightarrow> Inl AttributeError | Some x \<Rightarrow> Inr (first_name x))"
| "effective_first_name (QueryArg q) = Inl AttributeError"

section \<open>Reply composer and interaction sequence (bot.py, lines 153--214)\<close>

definition format_value :: "world \<Rightarrow> json \<Rightarrow> string" where
  \<comment> \<open>A value inside an f-string: a string is inserted as it is.\<close>
  "format_value w v = (case v of JStr s \<Rightarrow> s | _ \<Rightarrow> str_other w v)"

definition call_to_action :: string where
  "call_to_action = dizzy @ '' Join our channels for more anime content! '' @ backhand_down"

definition salutation :: "string \<Rightarrow> string" where
  \<comment> \<open>line 176\<close>
  "salutation user_name =
     cherry_blossom @ '' Here's your anime image, '' @ user_name @ ''! '' @ cherry_blossom"

definition alt_line :: "world \<Rightarrow> image \<Rightarrow> string" where
  \<comment> \<open>line 178, without the line break\<close>
  "alt_line w image_data = palette @ '' '' @ format_value w (alt image_data)"

definition attribution_line :: "world \<Rightarrow> image \<Rightarrow> string" where
  \<comment> \<open>line 179, without the line breaks\<close>
  "attribution_line w image_data =
     camera_flash @ '' Photo by: '' @ format_value w (photographer image_data)"

definition compose_caption :: "world \<Rightarrow> string option \<Rightarrow> string \<Rightarrow> image \<Rightarrow> string" where
  \<comment> \<open>lines 173--180; \<open>if welcome_text:\<close> is false for \<open>None\<close> and for the empty string\<close>
  "compose_caption w welcome_text user_name image_data =
     (case welcome_text of
        None \<Rightarrow> salutation user_name @ NL @ NL
      | Some g \<Rightarrow> if g = [] then salutation user_name @ NL @ NL else g @ NL @ NL)
     @ (alt_line w image_data @ NL)
     @ (attribution_line w image_data @ NL @ NL)
     @ call_to_action"

definition degraded_caption :: "world \<Rightarrow> image \<Rightarrow> string" where
  \<comment> \<open>line 212\<close>
  "degraded_caption w fallback_image =
     cherry_blossom @ '' Here's your anime image! '' @ cherry_blossom @ NL @ NL
     @ palette @ '' '' @ format_value w (alt fallback_image) @ NL
     @ camera_flash @ '' Photo by: '' @ format_value w (photographer fallback_image) @ NL @ NL
     @ call_to_action"

definition placeholder_text :: string where
  "placeholder_text = palette @ '' Getting a fresh anime image for you... '' @ sparkles"

text \<open>
  The local variables the \<open>except\<close> block reads: each is bound only once the \<open>try\<close>
  block has run past its assignment.
\<close>

record locals =
  chat_id :: "int option"
  status_message :: "int option"

record attempt =
  att_db :: user_db
  att_trace :: "action list"
  att_locals :: locals
  att_error :: "py_error option"

definition try_block :: "config \<Rightarrow> world \<Rightarrow> string option \<Rightarrow> handler_arg \<Rightarrow> user_db \<Rightarrow> attempt" where
  \<comment> \<open>lines 156--196\<close>
  "try_block cfg w welcome_text update db =
     (case effective_chat_id update of
        Inl e \<Rightarrow>
          \<lparr>att_db = db, att_trace = [],
           att_locals = \<lparr>chat_id = None, status_message = None\<rparr>, att_error = Some e\<rparr>
      | Inr cid \<Rightarrow>
          (case effective_first_name update of
             Inl e \<Rightarrow>
               \<lparr>att_db = db, att_trace = [],
                att_locals = \<lparr>chat_id = Some cid, status_message = None\<rparr>, att_error = Some e\<rparr>
           | Inr fn \<Rightarrow>
               (let user_name = py_or fn ''there'';
                    db1 = store_user cid user_name db;
                    t1 = [SendMessage cid placeholder_text]
                in case placeholder_result w of
                     Inl e \<Rightarrow>
                       \<lparr>att_db = db1, att_trace = t1,
                        att_locals = \<lparr>chat_id = Some cid, status_message = None\<rparr>,
                        att_error = Some e\<rparr>
                   | Inr mid \<Rightarrow>
                       (let bound = \<lparr>chat_id = Some cid, status_message = Some mid\<rparr>;
                            image_data = snd (fetch_anime_image cfg w);
                            t2 = t1 @ map Search (fst (fetch_anime_image cfg w))
                        in if py_truthy (url image_data) then
                             (let caption = compose_caption w welcome_text user_name image_data;
                                  t3 = t2 @ [DeleteMessage cid mid]
                              in case delete_result w of
                                   Some e \<Rightarrow>
                                     \<lparr>att_db = db1, att_trace = t3, att_locals = bound,
                                      att_error = Some e\<rparr>
                                 | None \<Rightarrow>
                                     \<lparr>att_db = db1,
                                      att_trace = t3 @ [SendPhoto cid (url image_data) caption
                                                          (create_channel_keyboard cfg)],
                                      att_locals = bound,
                                      att_error = photo_result w\<rparr>)
                           else
                             \<lparr>att_db = db1, att_trace = t2, att_locals = bound,
                              att_error = Some NoImageData\<rparr>))))"

definition except_block :: "config \<Rightarrow> world \<Rightarrow> attempt \<Rightarrow> run" where
  \<comment> \<open>lines 198--214: the inner \<open>try\<close> swallows whatever the deletion raises, an unbound
      \<open>chat_id\<close> or \<open>status_message\<close> included, so \<open>cleanup_result\<close> is not read; the final
      \<open>send_photo\<close> is not guarded.\<close>
  "except_block cfg w a =
     (let t = att_trace a @
              (case (chat_id (att_locals a), status_message (att_locals a)) of
                 (Some cid, Some mid) \<Rightarrow> [DeleteMessage cid mid]
               | _ \<Rightarrow> []);
          fallback_image = get_fallback_image (handler_fallback_draw w)
      in case chat_id (att_locals a) of
           None \<Rightarrow> \<lparr>db_after = att_db a, trace = t, raised = Some UnboundLocalError\<rparr>
         | Some cid \<Rightarrow>
             \<lparr>db_after = att_db a,
              trace = t @ [SendPhoto cid (url fallback_image) (degraded_caption w fallback_image)
                             (create_channel_keyboard cfg)],
              raised = degraded_result w\<rparr>)"

definition send_anime_with_channels ::
    "config \<Rightarrow> world \<Rightarrow> string option \<Rightarrow> handler_arg \<Rightarrow> user_db \<Rightarrow> run" where
  "send_anime_with_channels cfg w welcome_text update db =
     (let a = try_block cfg w welcome_text update db
      in case att_error a of
           None \<Rightarrow> \<lparr>db_after = att_db a, trace = att_trace a, raised = None\<rparr>
         | Some e \<Rightarrow> except_block cfg w a)"

section \<open>Button handler (bot.py, lines 272--299)\<close>

definition quick_help :: "config \<Rightarrow> string" where
  \<comment> \<open>lines 284--294\<close>
  "quick_help cfg =
     NL @ robot_face @ '' **Quick Help**'' @ NL @ NL
     @ cherry_blossom @ '' Send me any message or photo for anime images!'' @ NL @ NL
     @ dizzy @ '' **Our Channels:**'' @ NL
     @ bullet @ '' Main: '' @ MAIN_CHANNEL cfg @ NL
     @ bullet @ '' Backup: '' @ BACKUP_CHANNEL cfg @ NL @ NL
     @ palette @ '' Enjoy unlimited anime content!'' @ NL @ ''        ''"

definition handle_callback_query :: "config \<Rightarrow> world \<Rightarrow> tg_update \<Rightarrow> user_db \<Rightarrow> run" where
  \<comment> \<open>lines 272--299; the first argument of the call in line 281 is \<open>query\<close>\<close>
  "handle_callback_query cfg w update db =
     (case callback_query update of
        None \<Rightarrow> \<lparr>db_after = db, trace = [], raised = Some AttributeError\<rparr>
      | Some query \<Rightarrow>
          (case answer_result w of
             Some e \<Rightarrow> \<lparr>db_after = db, trace = [Answer], raised = Some e\<rparr>
           | None \<Rightarrow>
               if data query = Some ''get_random'' then
                 (let r = send_anime_with_channels cfg w None (QueryArg query) db
                  in r\<lparr>trace := Answer # trace r\<rparr>)
               else if data query = Some ''help'' then
                 \<lparr>db_after = db,
                  trace = [Answer, EditMessageCaption (quick_help cfg) (create_channel_keyboard cfg)],
                  raised = edit_result w\<rparr>
               else \<lparr>db_after = db, trace = [Answer], raised = None\<rparr>))"

section \<open>Predicates of the statements and concrete inputs\<close>

text \<open>\<open>in_order ps s\<close>: the strings \<open>ps\<close> occur in \<open>s\<close> one after the other, without overlap.\<close>

inductive in_order :: "string list \<Rightarrow> string \<Rightarrow> bool" where
  in_order_Nil: "in_order [] s"
| in_order_Cons: "in_order ps rest \<Longrightarrow> in_order (p # ps) (pre @ p @ rest)"

definition is_link_button :: "inline_keyboard_button \<Rightarrow> bool" where
  "is_link_button b = (btn_url b \<noteq> None \<and> btn_callback_data b = None)"

definition is_action_button :: "inline_keyboard_button \<Rightarrow> bool" where
  "is_action_button b = (btn_url b = None \<and> btn_callback_data b \<noteq> None)"

definition nonempty_string :: "json \<Rightarrow> bool" where
  "nonempty_string v = (case v of JStr s \<Rightarrow> s \<noteq> [] | _ \<Rightarrow> False)"

definition is_search :: "action \<Rightarrow> bool" where
  "is_search a = (case a of Search r \<Rightarrow> True | _ \<Rightarrow> False)"

definition is_send :: "action \<Rightarrow> bool" where
  \<comment> \<open>a call that posts a new message\<close>
  "is_send a = (case a of SendMessage c t \<Rightarrow> True | SendPhoto c p t k \<Rightarrow> True | _ \<Rightarrow> False)"

fun listed_failure :: "http_result \<Rightarrow> bool" where
  \<comment> \<open>transport error or timeout; a body that is not a JSON object; a status other than
      200; a photo list that is missing, null or empty\<close>
  "listed_failure Raised = True"
| "listed_failure (Response status_code None) = True"
| "listed_failure (Response status_code (Some (JObj kvs))) =
     (status_code \<noteq> 200 \<or>
      (case map_of kvs ''photos'' of
         None \<Rightarrow> True
       | Some JNull \<Rightarrow> True
       | Some (JArr xs) \<Rightarrow> xs = []
       | Some _ \<Rightarrow> False))"
| "listed_failure (Response status_code (Some _)) = True"

definition caption_opening :: "string option \<Rightarrow> string \<Rightarrow> string" where
  \<comment> \<open>the supplied greeting when one is given, otherwise the salutation\<close>
  "caption_opening welcome_text user_name =
     (case welcome_text of None \<Rightarrow> salutation user_name | Some g \<Rightarrow> g)"

definition step_raises :: "config \<Rightarrow> world \<Rightarrow> tg_update \<Rightarrow> bool" where
  \<comment> \<open>some step of the \<open>try\<close> block raises, for an update that carries a chat: the user is
      missing, the placeholder send raises, the image has no usable URL, the deletion raises
      or the photo send raises\<close>
  "step_raises cfg w u =
     (effective_user u = None
      \<or> (case placeholder_result w of Inl e \<Rightarrow> True | Inr mid \<Rightarrow> False)
      \<or> \<not> py_truthy (url (snd (fetch_anime_image cfg w)))
      \<or> delete_result w \<noteq> None
      \<or> photo_result w \<noteq> None)"

definition empty_db :: user_db where
  "empty_db = Map.empty"

definition env_minimal :: environ where
  \<comment> \<open>only the two mandatory variables are set\<close>
  "env_minimal = [''TELEGRAM_BOT_TOKEN'' \<mapsto> ''123:abc'', ''PEXELS_API_KEY'' \<mapsto> ''key'']"

definition env_no_key :: environ where
  "env_no_key = [''TELEGRAM_BOT_TOKEN'' \<mapsto> ''123:abc'', ''MAIN_CHANNEL_USERNAME'' \<mapsto> ''@main'']"

definition sample_config :: config where
  "sample_config =
     \<lparr>BOT_TOKEN = ''123:abc'', PEXELS_API_KEY = ''key'',
      MAIN_CHANNEL = ''@main'', BACKUP_CHANNEL = ''@backup'',
      MAIN_CHANNEL_NAME = ''Main'', BACKUP_CHANNEL_NAME = ''Backup''\<rparr>"

definition sample_photo :: json where
  "sample_photo =
     JObj [(''src'', JObj [(''large'', JStr ''https://example.org/a.jpg'')]),
           (''photographer'', JStr ''Hana''),
           (''alt'', JStr ''A street in Tokyo'')]"


definition sample_image :: image where
  \<comment> \<open>the descriptor of \<open>sample_photo\<close>\<close>
  "sample_image =
     \<lparr>url = JStr ''https://example.org/a.jpg'', photographer = JStr ''Hana'',
      alt = JStr ''A street in Tokyo''\<rparr>"

definition calm_world :: world where
  \<comment> \<open>the search answers with one photo and every messaging call returns\<close>
  "calm_world =
     \<lparr>term_draw = 0, page_draw = 0, photo_draw = 0, fallback_draw = 0,
      http = Response 200 (Some (JObj [(''photos'', JArr [sample_photo])])),
      answer_result = None, placeholder_result = Inr 77, delete_result = None,
      photo_result = None, cleanup_result = None, handler_fallback_draw = 0,
      degraded_result = None, edit_result = None, str_other = (\<lambda>v. ''?'')\<rparr>"

definition aiko :: tg_user where
  "aiko = \<lparr>first_name = ''Aiko''\<rparr>"

definition aiko_message :: tg_update where
  \<comment> \<open>a message from user Aiko in chat 123\<close>
  "aiko_message =
     \<lparr>effective_chat = Some \<lparr>ident = 123\<rparr>, effective_user = Some aiko, callback_query = None\<rparr>"

definition nameless_message :: tg_update where
  \<comment> \<open>a message in chat 123 from a user whose first name is empty\<close>
  "nameless_message =
     \<lparr>effective_chat = Some \<lparr>ident = 123\<rparr>, effective_user = Some \<lparr>first_name = []\<rparr>,
      callback_query = None\<rparr>"

definition aiko_press :: "string \<Rightarrow> tg_update" where
  \<comment> \<open>user Aiko presses, in chat 123, the button with the given callback data\<close>
  "aiko_press d =
     \<lparr>effective_chat = Some \<lparr>ident = 123\<rparr>, effective_user = Some aiko,
      callback_query = Some \<lparr>from_user = aiko, data = Some d\<rparr>\<rparr>"

section \<open>Configuration at start-up\<close>

text \<open>
  C9 (amended). Start-up is fatal (\<open>exit(1)\<close>) when the bot token or the image-search key
  is missing or empty. When both are set the program starts, and the two channel handles
  and the two channel display names are each read from the environment with a default
  that replaces a variable that is not set.
\<close>

theorem load_config_required:
  "(not_set (env ''TELEGRAM_BOT_TOKEN'') \<or> not_set (env ''PEXELS_API_KEY'')
      \<longrightarrow> load_config env = Inl 1)
   \<and> (\<not> not_set (env ''TELEGRAM_BOT_TOKEN'') \<and> \<not> not_set (env ''PEXELS_API_KEY'')
      \<longrightarrow> load_config env =
          Inr \<lparr>BOT_TOKEN = the (env ''TELEGRAM_BOT_TOKEN''),
               PEXELS_API_KEY = the (env ''PEXELS_API_KEY''),
               MAIN_CHANNEL = getenv env ''MAIN_CHANNEL_USERNAME'' ''@your_main_channel'',
               BACKUP_CHANNEL = getenv env ''BACKUP_CHANNEL_USERNAME'' ''@your_backup_channel'',
               MAIN_CHANNEL_NAME = getenv env ''MAIN_CHANNEL_NAME'' ''Main Anime Channel'',
               BACKUP_CHANNEL_NAME = getenv env ''BACKUP_CHANNEL_NAME'' ''Backup Anime Channel''\<rparr>)"
  by (auto simp: load_config_def getenv_def not_set_def split: option.splits)

theorem load_config_required_witness:
  "load_config env_no_key = Inl 1
   \<and> load_config (env_no_key(''PEXELS_API_KEY'' \<mapsto> ''key'')) =
       Inr \<lparr>BOT_TOKEN = ''123:abc'', PEXELS_API_KEY = ''key'',
            MAIN_CHANNEL = ''@main'', BACKUP_CHANNEL = ''@your_backup_channel'',
            MAIN_CHANNEL_NAME = ''Main Anime Channel'',
            BACKUP_CHANNEL_NAME = ''Backup Anime Channel''\<rparr>"
  using load_config_required [of env_no_key]
    load_config_required [of "env_no_key(''PEXELS_API_KEY'' \<mapsto> ''key'')"]
  by (simp add: env_no_key_def not_set_def getenv_def)

text \<open>
  The claim as stated makes the two channel handles mandatory. With only the token and the
  key set, start-up succeeds and the handles take their defaults.
\<close>

theorem handles_required_counterexample:
  "env_minimal ''MAIN_CHANNEL_USERNAME'' = None
   \<and> env_minimal ''BACKUP_CHANNEL_USERNAME'' = None
   \<and> load_config env_minimal =
       Inr \<lparr>BOT_TOKEN = ''123:abc'', PEXELS_API_KEY = ''key'',
            MAIN_CHANNEL = ''@your_main_channel'', BACKUP_CHANNEL = ''@your_backup_channel'',
            MAIN_CHANNEL_NAME = ''Main Anime Channel'',
            BACKUP_CHANNEL_NAME = ''Backup Anime Channel''\<rparr>"
  by (simp add: env_minimal_def load_config_def not_set_def getenv_def)

section \<open>User directory\<close>

text \<open>
  C10. For a conversation identifier with no entry, \<open>get_user_name\<close> returns \<open>"User"\<close>,
  which is not the default \<open>"there"\<close> that the interaction sequence uses for an unknown
  name, and the directory after the call is the directory before it. The function is
  total: a lookup has no error result.
\<close>

theorem get_user_name_unknown:
  "db c = None \<Longrightarrow>
     get_user_name c db = (''User'', db) \<and> fst (get_user_name c db) \<noteq> py_or [] ''there''"
  by (simp add: get_user_name_def py_or_def)

theorem get_user_name_unknown_witness:
  "get_user_name 123 empty_db = (''User'', empty_db)"
  using get_user_name_unknown [of empty_db 123] by (simp add: empty_db_def)

section \<open>Button layout\<close>

text \<open>
  C5. For every configuration the keyboard has exactly two rows of two buttons each. The
  buttons of the first row are link buttons (a URL, no callback data) whose labels are a
  decorative prefix followed by the configured name of the main and of the backup
  channel; the buttons of the second row are action buttons (callback data, no URL) with
  callback data \<open>get_random\<close> and \<open>help\<close>.
\<close>

theorem create_channel_keyboard_layout:
  "length (create_channel_keyboard cfg) = 2
   \<and> map length (create_channel_keyboard cfg) = [2, 2]
   \<and> list_all is_link_button (create_channel_keyboard cfg ! 0)
   \<and> map btn_text (create_channel_keyboard cfg ! 0) =
       [cherry_blossom @ '' '' @ MAIN_CHANNEL_NAME cfg, dizzy @ '' '' @ BACKUP_CHANNEL_NAME cfg]
   \<and> list_all is_action_button (create_channel_keyboard cfg ! 1)
   \<and> map btn_callback_data (create_channel_keyboard cfg ! 1) = [Some ''get_random'', Some ''help'']"
  by (simp add: create_channel_keyboard_def is_link_button_def is_action_button_def)

section \<open>Facts about the resolver\<close>

lemma fallback_images_set:
  "get_fallback_image r \<in> set FALLBACK_IMAGES"
  unfolding get_fallback_image_def by (rule nth_mem) (simp add: FALLBACK_IMAGES_def)

lemma fallback_url_nonempty:
  "f \<in> set FALLBACK_IMAGES \<Longrightarrow> nonempty_string (url f)"
  by (auto simp: FALLBACK_IMAGES_def nonempty_string_def)

lemma fallback_truthy:
  "py_truthy (url (get_fallback_image r))"
  using fallback_url_nonempty [OF fallback_images_set [of r]]
  by (cases "url (get_fallback_image r)") (simp_all add: nonempty_string_def)

lemma listed_failure_fallback:
  "listed_failure (http w) \<Longrightarrow>
     snd (fetch_anime_image cfg w) = get_fallback_image (fallback_draw w)"
proof (cases "http w")
  case Raised
  then show ?thesis by (simp add: fetch_anime_image_def)
next
  case (Response st body)
  assume lf: "listed_failure (http w)"
  show ?thesis
  proof (cases body)
    case None
    with Response show ?thesis by (simp add: fetch_anime_image_def read_response_def)
  next
    case (Some d)
    with Response lf show ?thesis
      by (cases d) (auto simp: fetch_anime_image_def read_response_def
           split: option.splits json.splits list.splits)
  qed
qed




lemma fst_fetch: "fst (fetch_anime_image cfg w) = [make_request cfg w]"
  by (simp add: fetch_anime_image_def)

lemma fetch_calm: "snd (fetch_anime_image sample_config calm_world) = sample_image"
  by (simp add: fetch_anime_image_def read_response_def photo_to_image_def calm_world_def
      sample_photo_def sample_image_def)

lemma randint_1_10_bij: "bij_betw (randint 1 10) {0..<10} {1..10}"
proof (rule bij_betw_byWitness [where f' = "\<lambda>p. nat (p - 1)"])
  show "\<forall>a\<in>{0..<10}. nat (randint 1 10 a - 1) = a" by (simp add: randint_def)
  show "\<forall>a'\<in>{1..10}. randint 1 10 (nat (a' - 1)) = a'" by (auto simp: randint_def)
  show "randint 1 10 ` {0..<10} \<subseteq> {1..10}" by (auto simp: randint_def)
  show "(\<lambda>p. nat (p - 1)) ` {1..10} \<subseteq> {0..<10}" by auto
qed

lemma randint_1_10_range: "1 \<le> randint 1 10 r \<and> randint 1 10 r \<le> 10"
  unfolding randint_def by simp

section \<open>Facts about the interaction sequence\<close>

lemma send_anime_trace_searches:
  "length (filter is_search (trace (send_anime_with_channels cfg w g arg db))) \<le> 1"
  by (auto simp: send_anime_with_channels_def try_block_def except_block_def Let_def
        fetch_anime_image_def is_search_def
      split: sum.splits option.splits)

lemma db_after_send:
  "db_after (send_anime_with_channels cfg w g arg db) =
     (case effective_chat_id arg of
        Inl e \<Rightarrow> db
      | Inr c \<Rightarrow>
          (case effective_first_name arg of
             Inl e \<Rightarrow> db
           | Inr fn \<Rightarrow> store_user c (py_or fn ''there'') db))"
  by (simp add: send_anime_with_channels_def try_block_def except_block_def Let_def
      split: sum.splits option.splits)

lemma send_success:
  assumes "effective_chat u = Some ch" and "effective_user u = Some usr"
    and "placeholder_result w = Inr mid"
    and "py_truthy (url (snd (fetch_anime_image cfg w)))"
    and "delete_result w = None" and "photo_result w = None"
  shows "send_anime_with_channels cfg w g (UpdateArg u) db =
     \<lparr>db_after = store_user (ident ch) (py_or (first_name usr) ''there'') db,
      trace = [SendMessage (ident ch) placeholder_text,
               Search (make_request cfg w),
               DeleteMessage (ident ch) mid,
               SendPhoto (ident ch) (url (snd (fetch_anime_image cfg w)))
                 (compose_caption w g (py_or (first_name usr) ''there'')
                    (snd (fetch_anime_image cfg w)))
                 (create_channel_keyboard cfg)],
      raised = None\<rparr>"
  using assms
  by (simp add: send_anime_with_channels_def try_block_def Let_def fst_fetch)

lemma not_step_raises:
  "\<not> step_raises cfg w u \<longleftrightarrow>
     (\<exists>usr mid. effective_user u = Some usr \<and> placeholder_result w = Inr mid
        \<and> py_truthy (url (snd (fetch_anime_image cfg w)))
        \<and> delete_result w = None \<and> photo_result w = None)"
  by (auto simp: step_raises_def split: sum.splits)

lemma send_failure_raised:
  assumes "effective_chat u = Some ch" and "step_raises cfg w u"
  shows "raised (send_anime_with_channels cfg w g (UpdateArg u) db) = degraded_result w"
  using assms
  by (auto simp: send_anime_with_channels_def try_block_def except_block_def Let_def
        step_raises_def split: sum.splits option.splits)

lemma send_failure_trace:
  assumes "effective_chat u = Some ch" and "step_raises cfg w u"
  shows "suffix
     ((case effective_user u of
         None \<Rightarrow> []
       | Some usr \<Rightarrow>
           (case placeholder_result w of
              Inl e \<Rightarrow> []
            | Inr mid \<Rightarrow> [DeleteMessage (ident ch) mid]))
      @ [SendPhoto (ident ch) (url (get_fallback_image (handler_fallback_draw w)))
           (degraded_caption w (get_fallback_image (handler_fallback_draw w)))
           (create_channel_keyboard cfg)])
     (trace (send_anime_with_channels cfg w g (UpdateArg u) db))"
  using assms
  by (auto simp: send_anime_with_channels_def try_block_def except_block_def Let_def
        step_raises_def suffix_def split: sum.splits option.splits)


lemma db_after_help:
  "db_after (handle_callback_query cfg w
               (u\<lparr>callback_query := Some (q\<lparr>data := Some ''help''\<rparr>)\<rparr>) db) = db"
  by (simp add: handle_callback_query_def split: option.splits)

section \<open>Facts about the caption\<close>

lemma in_orderI:
  "s = pre @ p @ rest \<Longrightarrow> in_order ps rest \<Longrightarrow> in_order (p # ps) s"
  by (simp add: in_order_Cons)

lemma caption_in_order:
  "in_order [caption_opening g name, format_value w (alt img), attribution_line w img,
             call_to_action]
     (compose_caption w g name img)"
proof -
  let ?op = "case g of None \<Rightarrow> salutation name @ NL @ NL
             | Some s \<Rightarrow> if s = [] then salutation name @ NL @ NL else s @ NL @ NL"
  let ?r3 = "NL @ NL @ call_to_action"
  let ?r2 = "NL @ attribution_line w img @ ?r3"
  have o: "\<exists>tl. ?op = caption_opening g name @ tl"
    by (cases g) (auto simp: caption_opening_def)
  then obtain tl where tl: "?op = caption_opening g name @ tl" by blast
  have c: "compose_caption w g name img
           = [] @ caption_opening g name @ (tl @ palette @ '' '' @ format_value w (alt img) @ ?r2)"
    unfolding compose_caption_def alt_line_def using tl by simp
  have 3: "in_order [call_to_action] ?r3"
    by (rule in_orderI [where pre = "NL @ NL" and rest = "[]"]) (simp_all add: in_order_Nil)
  have 2: "in_order [attribution_line w img, call_to_action] ?r2"
    by (rule in_orderI [where pre = "NL" and rest = ?r3]) (simp_all add: 3)
  have 1: "in_order [format_value w (alt img), attribution_line w img, call_to_action]
             (tl @ palette @ '' '' @ format_value w (alt img) @ ?r2)"
    by (rule in_orderI [where pre = "tl @ palette @ '' ''" and rest = ?r2]) (simp_all add: 2)
  show ?thesis
    by (rule in_orderI [OF c 1])
qed

lemma caption_prefix:
  "prefix (caption_opening g name) (compose_caption w g name img)"
  by (cases g) (auto simp: compose_caption_def caption_opening_def prefix_def)

lemma caption_suffix:
  "suffix call_to_action (compose_caption w g name img)"
  unfolding suffix_def compose_caption_def
  by (rule exI [where x = "(case g of None \<Rightarrow> salutation name @ NL @ NL
        | Some s \<Rightarrow> if s = [] then salutation name @ NL @ NL else s @ NL @ NL)
       @ (alt_line w img @ NL) @ (attribution_line w img @ NL @ NL)"]) simp

lemma caption_text:
  "compose_caption w g name \<lparr>url = x, photographer = JStr p, alt = JStr a\<rparr> =
     (case g of
        None \<Rightarrow> [CHR 0xF0, CHR 0x9F, CHR 0x8C, CHR 0xB8] @ '' Here's your anime image, '' @ name
                 @ ''! '' @ [CHR 0xF0, CHR 0x9F, CHR 0x8C, CHR 0xB8]
      | Some s \<Rightarrow>
          if s = [] then
            [CHR 0xF0, CHR 0x9F, CHR 0x8C, CHR 0xB8] @ '' Here's your anime image, '' @ name
            @ ''! '' @ [CHR 0xF0, CHR 0x9F, CHR 0x8C, CHR 0xB8]
          else s)
     @ [CHR 0x0A, CHR 0x0A]
     @ [CHR 0xF0, CHR 0x9F, CHR 0x8E, CHR 0xA8] @ '' '' @ a @ [CHR 0x0A]
     @ [CHR 0xF0, CHR 0x9F, CHR 0x93, CHR 0xB8] @ '' Photo by: '' @ p @ [CHR 0x0A, CHR 0x0A]
     @ [CHR 0xF0, CHR 0x9F, CHR 0x92, CHR 0xAB]
     @ '' Join our channels for more anime content! ''
     @ [CHR 0xF0, CHR 0x9F, CHR 0x91, CHR 0x87]"
  by (simp add: compose_caption_def salutation_def alt_line_def attribution_line_def
      call_to_action_def format_value_def NL_def cherry_blossom_def palette_def
      camera_flash_def dizzy_def backhand_down_def split: option.splits)

section \<open>Image resolver\<close>




text \<open>
  C7. One resolution sends exactly one search request, with 20 results per page, a
  timeout of 10 and the page \<open>randint 1 10\<close> of the draw, which lies in 1 through 10; the
  ten residues of the draw correspond one to one to the ten pages. A transport error, a
  status other than 200 and an empty photo list each yield a fallback entry. The request
  is not repeated: a whole interaction sends at most one search request.
\<close>

theorem fetch_single_request:
  "fst (fetch_anime_image cfg w) = [make_request cfg w]
   \<and> per_page (make_request cfg w) = 20
   \<and> timeout (make_request cfg w) = 10
   \<and> page (make_request cfg w) = randint 1 10 (page_draw w)
   \<and> 1 \<le> page (make_request cfg w) \<and> page (make_request cfg w) \<le> 10
   \<and> bij_betw (randint 1 10) {0..<10} {1..10}
   \<and> (http w = Raised \<longrightarrow> snd (fetch_anime_image cfg w) \<in> set FALLBACK_IMAGES)
   \<and> (http w = Response status_code body \<and> status_code \<noteq> 200
        \<longrightarrow> snd (fetch_anime_image cfg w) \<in> set FALLBACK_IMAGES)
   \<and> (http w = Response 200 (Some (JObj kvs)) \<and> map_of kvs ''photos'' = Some (JArr [])
        \<longrightarrow> snd (fetch_anime_image cfg w) \<in> set FALLBACK_IMAGES)
   \<and> length (filter is_search (trace (send_anime_with_channels cfg w g arg db))) \<le> 1"
proof (intro conjI impI)
  show "fst (fetch_anime_image cfg w) = [make_request cfg w]"
    by (simp add: fetch_anime_image_def)
  show "per_page (make_request cfg w) = 20" by (simp add: make_request_def)
  show "timeout (make_request cfg w) = 10" by (simp add: make_request_def)
  show "page (make_request cfg w) = randint 1 10 (page_draw w)" by (simp add: make_request_def)
  show "1 \<le> page (make_request cfg w)"
    using randint_1_10_range [of "page_draw w"] by (simp add: make_request_def)
  show "page (make_request cfg w) \<le> 10"
    using randint_1_10_range [of "page_draw w"] by (simp add: make_request_def)
  show "bij_betw (randint 1 10) {0..<10} {1..10}" by (rule randint_1_10_bij)
  show "length (filter is_search (trace (send_anime_with_channels cfg w g arg db))) \<le> 1"
    by (rule send_anime_trace_searches)
next
  assume "http w = Raised"
  then have "listed_failure (http w)" by simp
  then show "snd (fetch_anime_image cfg w) \<in> set FALLBACK_IMAGES"
    by (simp add: listed_failure_fallback fallback_images_set)
next
  assume "http w = Response status_code body \<and> status_code \<noteq> 200"
  then have "snd (fetch_anime_image cfg w) = get_fallback_image (fallback_draw w)"
    by (simp add: fetch_anime_image_def read_response_def)
  then show "snd (fetch_anime_image cfg w) \<in> set FALLBACK_IMAGES"
    by (simp add: fallback_images_set)
next
  assume "http w = Response 200 (Some (JObj kvs)) \<and> map_of kvs ''photos'' = Some (JArr [])"
  then have "listed_failure (http w)" by simp
  then show "snd (fetch_anime_image cfg w) \<in> set FALLBACK_IMAGES"
    by (simp add: listed_failure_fallback fallback_images_set)
qed

theorem fetch_single_request_witness:
  "fst (fetch_anime_image sample_config (calm_world\<lparr>http := Raised\<rparr>))
     = [make_request sample_config (calm_world\<lparr>http := Raised\<rparr>)]
   \<and> page (make_request sample_config (calm_world\<lparr>http := Raised\<rparr>)) = 1
   \<and> snd (fetch_anime_image sample_config (calm_world\<lparr>http := Raised\<rparr>))
       \<in> set FALLBACK_IMAGES
   \<and> snd (fetch_anime_image sample_config (calm_world\<lparr>http := Response 503 None\<rparr>))
       \<in> set FALLBACK_IMAGES
   \<and> snd (fetch_anime_image sample_config
            (calm_world\<lparr>http := Response 200 (Some (JObj [(''photos'', JArr [])]))\<rparr>))
       \<in> set FALLBACK_IMAGES"
  using fetch_single_request [of sample_config "calm_world\<lparr>http := Raised\<rparr>"]
    fetch_single_request [of sample_config "calm_world\<lparr>http := Response 503 None\<rparr>" 503 None]
    fetch_single_request [of sample_config
      "calm_world\<lparr>http := Response 200 (Some (JObj [(''photos'', JArr [])]))\<rparr>" _ _
      "[(''photos'', JArr [])]"]
  by (simp add: calm_world_def randint_def)

section \<open>Directory updates of an interaction\<close>

text \<open>
  C6 (amended). After \<open>store_user\<close> for conversation \<open>c\<close> and name \<open>n\<close> the lookup of \<open>c\<close>
  returns \<open>n\<close>; a second write for the same \<open>c\<close> replaces the entry; the entries of other
  conversations are not changed. A run of the interaction sequence on a message that
  carries chat \<open>ch\<close> and a user writes the entry before any call that can fail: afterwards
  the lookup of \<open>ch\<close> returns the user's first name, or \<open>"there"\<close> when the first name is
  empty, whatever the collaborators do and whatever the directory held; a later run from
  the same chat replaces the entry; no entry of another conversation changes. A press of
  the help button does not write the directory.
\<close>

theorem directory_last_write_wins:
  "fst (get_user_name c (store_user c n db)) = n
   \<and> fst (get_user_name c (store_user c n' (store_user c n db))) = n'
   \<and> (c' \<noteq> c \<longrightarrow> fst (get_user_name c' (store_user c n db)) = fst (get_user_name c' db))
   \<and> (effective_chat u = Some ch \<and> effective_user u = Some usr \<longrightarrow>
        fst (get_user_name (ident ch)
              (db_after (send_anime_with_channels cfg w g (UpdateArg u) db)))
          = (if first_name usr = [] then ''there'' else first_name usr))
   \<and> (effective_chat u = Some ch \<and> effective_user u = Some usr
       \<and> effective_chat u' = Some ch \<and> effective_user u' = Some usr' \<longrightarrow>
        fst (get_user_name (ident ch)
              (db_after (send_anime_with_channels cfg w' g' (UpdateArg u')
                 (db_after (send_anime_with_channels cfg w g (UpdateArg u) db)))))
          = (if first_name usr' = [] then ''there'' else first_name usr'))
   \<and> (effective_chat_id arg \<noteq> Inr c' \<longrightarrow>
        db_after (send_anime_with_channels cfg w g arg db) c' = db c')
   \<and> db_after (handle_callback_query cfg w
                  (u\<lparr>callback_query := Some (q\<lparr>data := Some ''help''\<rparr>)\<rparr>) db) = db"
proof (intro conjI impI)
  show "fst (get_user_name c (store_user c n db)) = n"
    by (simp add: get_user_name_def store_user_def)
  show "fst (get_user_name c (store_user c n' (store_user c n db))) = n'"
    by (simp add: get_user_name_def store_user_def)
  show "db_after (handle_callback_query cfg w
                  (u\<lparr>callback_query := Some (q\<lparr>data := Some ''help''\<rparr>)\<rparr>) db) = db"
    by (rule db_after_help)
next
  assume "c' \<noteq> c"
  then show "fst (get_user_name c' (store_user c n db)) = fst (get_user_name c' db)"
    by (simp add: get_user_name_def store_user_def)
next
  assume "effective_chat u = Some ch \<and> effective_user u = Some usr"
  then show "fst (get_user_name (ident ch)
              (db_after (send_anime_with_channels cfg w g (UpdateArg u) db)))
          = (if first_name usr = [] then ''there'' else first_name usr)"
    by (simp add: db_after_send get_user_name_def store_user_def py_or_def)
next
  assume "effective_chat u = Some ch \<and> effective_user u = Some usr
       \<and> effective_chat u' = Some ch \<and> effective_user u' = Some usr'"
  then show "fst (get_user_name (ident ch)
              (db_after (send_anime_with_channels cfg w' g' (UpdateArg u')
                 (db_after (send_anime_with_channels cfg w g (UpdateArg u) db)))))
          = (if first_name usr' = [] then ''there'' else first_name usr')"
    by (simp add: db_after_send get_user_name_def store_user_def py_or_def)
next
  assume "effective_chat_id arg \<noteq> Inr c'"
  then show "db_after (send_anime_with_channels cfg w g arg db) c' = db c'"
    by (auto simp: db_after_send store_user_def split: sum.splits)
qed

theorem directory_last_write_wins_witness:
  "fst (get_user_name 123
         (db_after (send_anime_with_channels sample_config calm_world None
                      (UpdateArg aiko_message) (store_user 123 ''Old'' (store_user 5 ''Rin'' empty_db)))))
     = ''Aiko''
   \<and> fst (get_user_name 5
         (db_after (send_anime_with_channels sample_config calm_world None
                      (UpdateArg aiko_message) (store_user 123 ''Old'' (store_user 5 ''Rin'' empty_db)))))
     = ''Rin''
   \<and> fst (get_user_name 123
         (db_after (send_anime_with_channels sample_config calm_world None
                      (UpdateArg nameless_message)
                      (db_after (send_anime_with_channels sample_config calm_world None
                         (UpdateArg aiko_message) empty_db)))))
     = ''there''"
proof -
  let ?db = "store_user 123 ''Old'' (store_user 5 ''Rin'' empty_db)"
  have a: "fst (get_user_name 123
         (db_after (send_anime_with_channels sample_config calm_world None
                      (UpdateArg aiko_message) ?db))) = ''Aiko''"
    using directory_last_write_wins
            [where u = aiko_message and ch = "\<lparr>ident = 123\<rparr>" and usr = aiko
               and cfg = sample_config and w = calm_world and g = None and db = ?db]
    by (simp add: aiko_message_def aiko_def)
  have "db_after (send_anime_with_channels sample_config calm_world None
                      (UpdateArg aiko_message) ?db) 5 = ?db 5"
    using directory_last_write_wins
            [where arg = "UpdateArg aiko_message" and c' = 5
               and cfg = sample_config and w = calm_world and g = None and db = ?db]
    by (simp add: aiko_message_def)
  then have b: "fst (get_user_name 5
         (db_after (send_anime_with_channels sample_config calm_world None
                      (UpdateArg aiko_message) ?db))) = ''Rin''"
    by (simp add: get_user_name_def store_user_def)
  have c: "fst (get_user_name 123
         (db_after (send_anime_with_channels sample_config calm_world None
                      (UpdateArg nameless_message)
                      (db_after (send_anime_with_channels sample_config calm_world None
                         (UpdateArg aiko_message) empty_db))))) = ''there''"
    using directory_last_write_wins
            [where u = aiko_message and ch = "\<lparr>ident = 123\<rparr>" and usr = aiko
               and u' = nameless_message and usr' = "\<lparr>first_name = []\<rparr>"
               and cfg = sample_config and w = calm_world and g = None
               and w' = calm_world and g' = None and db = empty_db]
    by (simp add: aiko_message_def nameless_message_def)
  from a b c show ?thesis by simp
qed

text \<open>
  The claim as stated covers every interaction. A press of the help button by user Aiko in
  chat 123 completes without an error and leaves the directory empty: the lookup of 123
  returns \<open>"User"\<close>.
\<close>

theorem help_press_no_write_counterexample:
  "raised (handle_callback_query sample_config calm_world (aiko_press ''help'') empty_db) = None
   \<and> fst (get_user_name 123
           (db_after (handle_callback_query sample_config calm_world (aiko_press ''help'')
                        empty_db))) = ''User''"
  by (simp add: handle_callback_query_def aiko_press_def calm_world_def get_user_name_def
      empty_db_def)

section \<open>Caption\<close>

text \<open>
  C4. The caption starts with the supplied greeting when one is given and with the
  salutation otherwise; after it come, in this order and without overlap, the alt text of
  the image, the attribution line and the call to action, which ends the caption. The
  salutation is \<open>Here's your anime image, <name>!\<close> between two blossoms, the attribution
  line is \<open>Photo by:\<close> followed by the photographer, and the call to action is the fixed
  line \<open>Join our channels for more anime content!\<close>; for an image whose alt text and
  photographer are strings the whole caption is spelled out (an empty greeting counts as
  none). The interaction sequence passes the user's first name, or \<open>"there"\<close> when that
  is empty: the photo that a run without failure sends last carries this caption.
\<close>

theorem compose_caption_order:
  "in_order [caption_opening g name, format_value w (alt img), attribution_line w img,
             call_to_action]
     (compose_caption w g name img)
   \<and> prefix (caption_opening g name) (compose_caption w g name img)
   \<and> suffix call_to_action (compose_caption w g name img)
   \<and> caption_opening (Some greeting) name = greeting
   \<and> caption_opening None name =
       [CHR 0xF0, CHR 0x9F, CHR 0x8C, CHR 0xB8] @ '' Here's your anime image, '' @ name
       @ ''! '' @ [CHR 0xF0, CHR 0x9F, CHR 0x8C, CHR 0xB8]
   \<and> format_value w (JStr a) = a
   \<and> attribution_line w img =
       [CHR 0xF0, CHR 0x9F, CHR 0x93, CHR 0xB8] @ '' Photo by: ''
       @ format_value w (photographer img)
   \<and> call_to_action =
       [CHR 0xF0, CHR 0x9F, CHR 0x92, CHR 0xAB] @ '' Join our channels for more anime content! ''
       @ [CHR 0xF0, CHR 0x9F, CHR 0x91, CHR 0x87]
   \<and> compose_caption w g name \<lparr>url = x, photographer = JStr p, alt = JStr a\<rparr> =
       (case g of
          None \<Rightarrow> [CHR 0xF0, CHR 0x9F, CHR 0x8C, CHR 0xB8] @ '' Here's your anime image, ''
                   @ name @ ''! '' @ [CHR 0xF0, CHR 0x9F, CHR 0x8C, CHR 0xB8]
        | Some s \<Rightarrow>
            if s = [] then
              [CHR 0xF0, CHR 0x9F, CHR 0x8C, CHR 0xB8] @ '' Here's your anime image, '' @ name
              @ ''! '' @ [CHR 0xF0, CHR 0x9F, CHR 0x8C, CHR 0xB8]
            else s)
       @ [CHR 0x0A, CHR 0x0A]
       @ [CHR 0xF0, CHR 0x9F, CHR 0x8E, CHR 0xA8] @ '' '' @ a @ [CHR 0x0A]
       @ [CHR 0xF0, CHR 0x9F, CHR 0x93, CHR 0xB8] @ '' Photo by: '' @ p @ [CHR 0x0A, CHR 0x0A]
       @ [CHR 0xF0, CHR 0x9F, CHR 0x92, CHR 0xAB]
       @ '' Join our channels for more anime content! ''
       @ [CHR 0xF0, CHR 0x9F, CHR 0x91, CHR 0x87]
   \<and> (effective_chat u = Some ch \<and> effective_user u = Some usr \<and> \<not> step_raises cfg w u \<longrightarrow>
        last (trace (send_anime_with_channels cfg w g (UpdateArg u) db)) =
          SendPhoto (ident ch) (url (snd (fetch_anime_image cfg w)))
            (compose_caption w g (if first_name usr = [] then ''there'' else first_name usr)
               (snd (fetch_anime_image cfg w)))
            (create_channel_keyboard cfg))"
proof (intro conjI impI)
  show "in_order [caption_opening g name, format_value w (alt img), attribution_line w img,
             call_to_action] (compose_caption w g name img)"
    by (rule caption_in_order)
  show "prefix (caption_opening g name) (compose_caption w g name img)"
    by (rule caption_prefix)
  show "suffix call_to_action (compose_caption w g name img)"
    by (rule caption_suffix)
  show "caption_opening (Some greeting) name = greeting" by (simp add: caption_opening_def)
  show "caption_opening None name =
       [CHR 0xF0, CHR 0x9F, CHR 0x8C, CHR 0xB8] @ '' Here's your anime image, '' @ name
       @ ''! '' @ [CHR 0xF0, CHR 0x9F, CHR 0x8C, CHR 0xB8]"
    by (simp add: caption_opening_def salutation_def cherry_blossom_def)
  show "format_value w (JStr a) = a" by (simp add: format_value_def)
  show "attribution_line w img =
       [CHR 0xF0, CHR 0x9F, CHR 0x93, CHR 0xB8] @ '' Photo by: ''
       @ format_value w (photographer img)"
    by (simp add: attribution_line_def camera_flash_def)
  show "call_to_action =
       [CHR 0xF0, CHR 0x9F, CHR 0x92, CHR 0xAB] @ '' Join our channels for more anime content! ''
       @ [CHR 0xF0, CHR 0x9F, CHR 0x91, CHR 0x87]"
    by (simp add: call_to_action_def dizzy_def backhand_down_def)
  show "compose_caption w g name \<lparr>url = x, photographer = JStr p, alt = JStr a\<rparr> =
       (case g of
          None \<Rightarrow> [CHR 0xF0, CHR 0x9F, CHR 0x8C, CHR 0xB8] @ '' Here's your anime image, ''
                   @ name @ ''! '' @ [CHR 0xF0, CHR 0x9F, CHR 0x8C, CHR 0xB8]
        | Some s \<Rightarrow>
            if s = [] then
              [CHR 0xF0, CHR 0x9F, CHR 0x8C, CHR 0xB8] @ '' Here's your anime image, '' @ name
              @ ''! '' @ [CHR 0xF0, CHR 0x9F, CHR 0x8C, CHR 0xB8]
            else s)
       @ [CHR 0x0A, CHR 0x0A]
       @ [CHR 0xF0, CHR 0x9F, CHR 0x8E, CHR 0xA8] @ '' '' @ a @ [CHR 0x0A]
       @ [CHR 0xF0, CHR 0x9F, CHR 0x93, CHR 0xB8] @ '' Photo by: '' @ p @ [CHR 0x0A, CHR 0x0A]
       @ [CHR 0xF0, CHR 0x9F, CHR 0x92, CHR 0xAB]
       @ '' Join our channels for more anime content! ''
       @ [CHR 0xF0, CHR 0x9F, CHR 0x91, CHR 0x87]"
    by (rule caption_text)
next
  assume a: "effective_chat u = Some ch \<and> effective_user u = Some usr \<and> \<not> step_raises cfg w u"
  then obtain mid where "placeholder_result w = Inr mid"
    "py_truthy (url (snd (fetch_anime_image cfg w)))"
    "delete_result w = None" "photo_result w = None"
    using not_step_raises [of cfg w u] by blast
  with a have "last (trace (send_anime_with_channels cfg w g (UpdateArg u) db)) =
          SendPhoto (ident ch) (url (snd (fetch_anime_image cfg w)))
            (compose_caption w g (py_or (first_name usr) ''there'')
               (snd (fetch_anime_image cfg w)))
            (create_channel_keyboard cfg)"
    by (simp add: send_success)
  then show "last (trace (send_anime_with_channels cfg w g (UpdateArg u) db)) =
          SendPhoto (ident ch) (url (snd (fetch_anime_image cfg w)))
            (compose_caption w g (if first_name usr = [] then ''there'' else first_name usr)
               (snd (fetch_anime_image cfg w)))
            (create_channel_keyboard cfg)"
    by (simp add: py_or_def)
qed

theorem compose_caption_order_witness:
  "in_order [''Hello'', ''A street in Tokyo'', attribution_line calm_world sample_image,
             call_to_action]
     (compose_caption calm_world (Some ''Hello'') ''Aiko'' sample_image)
   \<and> last (trace (send_anime_with_channels sample_config calm_world None
                    (UpdateArg aiko_message) empty_db)) =
       SendPhoto 123 (JStr ''https://example.org/a.jpg'')
         ([CHR 0xF0, CHR 0x9F, CHR 0x8C, CHR 0xB8] @ '' Here's your anime image, Aiko! ''
          @ [CHR 0xF0, CHR 0x9F, CHR 0x8C, CHR 0xB8] @ [CHR 0x0A, CHR 0x0A]
          @ [CHR 0xF0, CHR 0x9F, CHR 0x8E, CHR 0xA8] @ '' A street in Tokyo'' @ [CHR 0x0A]
          @ [CHR 0xF0, CHR 0x9F, CHR 0x93, CHR 0xB8] @ '' Photo by: Hana'' @ [CHR 0x0A, CHR 0x0A]
          @ [CHR 0xF0, CHR 0x9F, CHR 0x92, CHR 0xAB]
          @ '' Join our channels for more anime content! ''
          @ [CHR 0xF0, CHR 0x9F, CHR 0x91, CHR 0x87])
         (create_channel_keyboard sample_config)
   \<and> last (trace (send_anime_with_channels sample_config calm_world None
                    (UpdateArg nameless_message) empty_db)) =
       SendPhoto 123 (JStr ''https://example.org/a.jpg'')
         ([CHR 0xF0, CHR 0x9F, CHR 0x8C, CHR 0xB8] @ '' Here's your anime image, there! ''
          @ [CHR 0xF0, CHR 0x9F, CHR 0x8C, CHR 0xB8] @ [CHR 0x0A, CHR 0x0A]
          @ [CHR 0xF0, CHR 0x9F, CHR 0x8E, CHR 0xA8] @ '' A street in Tokyo'' @ [CHR 0x0A]
          @ [CHR 0xF0, CHR 0x9F, CHR 0x93, CHR 0xB8] @ '' Photo by: Hana'' @ [CHR 0x0A, CHR 0x0A]
          @ [CHR 0xF0, CHR 0x9F, CHR 0x92, CHR 0xAB]
          @ '' Join our channels for more anime content! ''
          @ [CHR 0xF0, CHR 0x9F, CHR 0x91, CHR 0x87])
         (create_channel_keyboard sample_config)"
proof -
  have sr: "\<not> step_raises sample_config calm_world aiko_message"
           "\<not> step_raises sample_config calm_world nameless_message"
    using fetch_calm
    by (simp_all add: step_raises_def aiko_message_def nameless_message_def calm_world_def
        sample_image_def)
  have a: "in_order [''Hello'', ''A street in Tokyo'', attribution_line calm_world sample_image,
             call_to_action]
     (compose_caption calm_world (Some ''Hello'') ''Aiko'' sample_image)"
    using compose_caption_order
            [where g = "Some ''Hello''" and name = "''Aiko''" and w = calm_world
               and img = sample_image, THEN conjunct1]
    by (simp add: sample_image_def caption_opening_def format_value_def)
  have b: "last (trace (send_anime_with_channels sample_config calm_world None
                    (UpdateArg aiko_message) empty_db)) =
       SendPhoto 123 (url sample_image)
         (compose_caption calm_world None ''Aiko'' sample_image)
         (create_channel_keyboard sample_config)"
    using sr fetch_calm compose_caption_order
            [where g = None and w = calm_world and u = aiko_message
               and ch = "\<lparr>ident = 123\<rparr>" and usr = aiko
               and cfg = sample_config and db = empty_db]
    by (simp add: aiko_message_def aiko_def)
  have c: "last (trace (send_anime_with_channels sample_config calm_world None
                    (UpdateArg nameless_message) empty_db)) =
       SendPhoto 123 (url sample_image)
         (compose_caption calm_world None ''there'' sample_image)
         (create_channel_keyboard sample_config)"
    using sr fetch_calm compose_caption_order
            [where g = None and w = calm_world and u = nameless_message
               and ch = "\<lparr>ident = 123\<rparr>" and usr = "\<lparr>first_name = []\<rparr>"
               and cfg = sample_config and db = empty_db]
    by (simp add: nameless_message_def)
  have d: "compose_caption calm_world None name sample_image =
          [CHR 0xF0, CHR 0x9F, CHR 0x8C, CHR 0xB8] @ '' Here's your anime image, '' @ name
          @ ''! '' @ [CHR 0xF0, CHR 0x9F, CHR 0x8C, CHR 0xB8] @ [CHR 0x0A, CHR 0x0A]
          @ [CHR 0xF0, CHR 0x9F, CHR 0x8E, CHR 0xA8] @ '' A street in Tokyo'' @ [CHR 0x0A]
          @ [CHR 0xF0, CHR 0x9F, CHR 0x93, CHR 0xB8] @ '' Photo by: Hana'' @ [CHR 0x0A, CHR 0x0A]
          @ [CHR 0xF0, CHR 0x9F, CHR 0x92, CHR 0xAB]
          @ '' Join our channels for more anime content! ''
          @ [CHR 0xF0, CHR 0x9F, CHR 0x91, CHR 0x87]" for name
    using compose_caption_order
            [where g = None and w = calm_world and name = name
               and x = "JStr ''https://example.org/a.jpg''" and p = "''Hana''"
               and a = "''A street in Tokyo''"]
    by (simp add: sample_image_def)
  from a b c d [of "''Aiko''"] d [of "''there''"] show ?thesis
    by (simp add: sample_image_def)
qed

section \<open>Interaction sequence\<close>

text \<open>
  C3 (amended). For a message that carries a chat: when a step of the \<open>try\<close> block raises
  (the user is missing, the placeholder send fails, the image has no usable URL, the
  deletion fails or the photo send fails), the handler ends with a deletion of the
  placeholder, if one was sent, followed by one photo reply built from a fallback entry
  and the usual keyboard; what the deletion returns has no influence. The error of the
  step is not propagated: the handler returns what the degraded send returns, so it
  returns normally exactly when that send succeeds. When no step raises the handler
  returns normally.
\<close>

theorem send_anime_degrades:
  "(effective_chat u = Some ch \<and> step_raises cfg w u \<longrightarrow>
      raised (send_anime_with_channels cfg w g (UpdateArg u) db) = degraded_result w
      \<and> suffix
          ((case effective_user u of
              None \<Rightarrow> []
            | Some usr \<Rightarrow>
                (case placeholder_result w of
                   Inl e \<Rightarrow> []
                 | Inr mid \<Rightarrow> [DeleteMessage (ident ch) mid]))
           @ [SendPhoto (ident ch) (url (get_fallback_image (handler_fallback_draw w)))
                (degraded_caption w (get_fallback_image (handler_fallback_draw w)))
                (create_channel_keyboard cfg)])
          (trace (send_anime_with_channels cfg w g (UpdateArg u) db))
      \<and> get_fallback_image (handler_fallback_draw w) \<in> set FALLBACK_IMAGES)
   \<and> (effective_chat u = Some ch \<and> \<not> step_raises cfg w u \<longrightarrow>
        raised (send_anime_with_channels cfg w g (UpdateArg u) db) = None)"
proof (intro conjI impI)
  assume a: "effective_chat u = Some ch \<and> step_raises cfg w u"
  then show "raised (send_anime_with_channels cfg w g (UpdateArg u) db) = degraded_result w"
    by (simp add: send_failure_raised)
  from a show "suffix
          ((case effective_user u of
              None \<Rightarrow> []
            | Some usr \<Rightarrow>
                (case placeholder_result w of
                   Inl e \<Rightarrow> []
                 | Inr mid \<Rightarrow> [DeleteMessage (ident ch) mid]))
           @ [SendPhoto (ident ch) (url (get_fallback_image (handler_fallback_draw w)))
                (degraded_caption w (get_fallback_image (handler_fallback_draw w)))
                (create_channel_keyboard cfg)])
          (trace (send_anime_with_channels cfg w g (UpdateArg u) db))"
    by (simp add: send_failure_trace)
  show "get_fallback_image (handler_fallback_draw w) \<in> set FALLBACK_IMAGES"
    by (rule fallback_images_set)
next
  assume a: "effective_chat u = Some ch \<and> \<not> step_raises cfg w u"
  then obtain usr mid where "effective_user u = Some usr" "placeholder_result w = Inr mid"
    "py_truthy (url (snd (fetch_anime_image cfg w)))"
    "delete_result w = None" "photo_result w = None"
    using not_step_raises [of cfg w u] by blast
  with a show "raised (send_anime_with_channels cfg w g (UpdateArg u) db) = None"
    by (simp add: send_success)
qed

theorem send_anime_degrades_witness:
  "raised (send_anime_with_channels sample_config
             (calm_world\<lparr>photo_result := Some TelegramError\<rparr>) None
             (UpdateArg aiko_message) empty_db) = None
   \<and> suffix
        [DeleteMessage 123 77,
         SendPhoto 123 (url (get_fallback_image 0))
           (degraded_caption (calm_world\<lparr>photo_result := Some TelegramError\<rparr>)
              (get_fallback_image 0))
           (create_channel_keyboard sample_config)]
        (trace (send_anime_with_channels sample_config
                  (calm_world\<lparr>photo_result := Some TelegramError\<rparr>) None
                  (UpdateArg aiko_message) empty_db))
   \<and> raised (send_anime_with_channels sample_config calm_world None
               (UpdateArg aiko_message) empty_db) = None"
  using send_anime_degrades
          [where u = aiko_message and ch = "\<lparr>ident = 123\<rparr>" and cfg = sample_config
             and w = "calm_world\<lparr>photo_result := Some TelegramError\<rparr>" and g = None
             and db = empty_db]
        send_anime_degrades
          [where u = aiko_message and ch = "\<lparr>ident = 123\<rparr>" and cfg = sample_config
             and w = calm_world and g = None and db = empty_db]
        fetch_calm
  by (simp add: step_raises_def aiko_message_def calm_world_def fetch_anime_image_def
      read_response_def photo_to_image_def sample_photo_def)

text \<open>
  The claim as stated lets no error leave the handler. When the placeholder send and the
  degraded send both fail, the error of the degraded send leaves it.
\<close>

theorem degraded_send_raises_counterexample:
  "raised (send_anime_with_channels sample_config
             (calm_world\<lparr>placeholder_result := Inl TelegramError,
                           degraded_result := Some TelegramError\<rparr>) None
             (UpdateArg aiko_message) empty_db) = Some TelegramError"
  by (simp add: send_anime_with_channels_def try_block_def except_block_def Let_def
      aiko_message_def calm_world_def)

section \<open>Button presses\<close>

text \<open>
  C2. What the code does on a press of the button with callback data \<open>get_random\<close>:
  the handler acknowledges the press and passes the callback query, which has no
  \<open>effective_chat\<close>, to the interaction sequence. The first line of the \<open>try\<close> block
  raises, \<open>chat_id\<close> stays unbound, and the degraded send in the \<open>except\<close> block raises
  \<open>UnboundLocalError\<close>. The directory is not written, and no placeholder, search request
  or photo is sent.
\<close>

theorem get_random_press_raises:
  "handle_callback_query cfg w
     (u\<lparr>callback_query := Some (q\<lparr>data := Some ''get_random''\<rparr>)\<rparr>) db =
     \<lparr>db_after = db, trace = [Answer],
      raised = Some (case answer_result w of None \<Rightarrow> UnboundLocalError | Some e \<Rightarrow> e)\<rparr>"
  by (simp add: handle_callback_query_def send_anime_with_channels_def try_block_def
      except_block_def Let_def split: option.splits)

theorem get_random_press_raises_witness:
  "handle_callback_query sample_config calm_world (aiko_press ''get_random'') empty_db =
     \<lparr>db_after = empty_db, trace = [Answer], raised = Some UnboundLocalError\<rparr>"
  using get_random_press_raises
          [where cfg = sample_config and w = calm_world and u = "aiko_press ''get_random''"
             and q = "\<lparr>from_user = aiko, data = Some ''get_random''\<rparr>" and db = empty_db]
  by (simp add: aiko_press_def calm_world_def)

text \<open>
  C8 (amended). On a press of the button with callback data \<open>help\<close> the handler first
  acknowledges the press. When the acknowledgement returns, it makes one more call: it
  edits the caption of the originating message to the condensed help text, which names
  the two channel handles, with the two-row keyboard of \<open>create_channel_keyboard\<close>, and it
  returns what the edit returns. When the acknowledgement raises, that error leaves the
  handler and nothing is edited. In both cases no new message is posted, no search
  request is sent and the directory stays as it was.
\<close>

theorem help_press_edits_in_place:
  "trace (handle_callback_query cfg w
            (u\<lparr>callback_query := Some (q\<lparr>data := Some ''help''\<rparr>)\<rparr>) db)
     = (if answer_result w = None then
          [Answer,
           EditMessageCaption
             ([CHR 0x0A] @ [CHR 0xF0, CHR 0x9F, CHR 0xA4, CHR 0x96] @ '' **Quick Help**''
              @ [CHR 0x0A, CHR 0x0A] @ [CHR 0xF0, CHR 0x9F, CHR 0x8C, CHR 0xB8]
              @ '' Send me any message or photo for anime images!''
              @ [CHR 0x0A, CHR 0x0A] @ [CHR 0xF0, CHR 0x9F, CHR 0x92, CHR 0xAB]
              @ '' **Our Channels:**''
              @ [CHR 0x0A] @ [CHR 0xE2, CHR 0x80, CHR 0xA2] @ '' Main: '' @ MAIN_CHANNEL cfg
              @ [CHR 0x0A] @ [CHR 0xE2, CHR 0x80, CHR 0xA2] @ '' Backup: '' @ BACKUP_CHANNEL cfg
              @ [CHR 0x0A, CHR 0x0A] @ [CHR 0xF0, CHR 0x9F, CHR 0x8E, CHR 0xA8]
              @ '' Enjoy unlimited anime content!'' @ [CHR 0x0A] @ ''        '')
             (create_channel_keyboard cfg)]
        else [Answer])
   \<and> raised (handle_callback_query cfg w
               (u\<lparr>callback_query := Some (q\<lparr>data := Some ''help''\<rparr>)\<rparr>) db)
     = (case answer_result w of None \<Rightarrow> edit_result w | Some e \<Rightarrow> Some e)
   \<and> db_after (handle_callback_query cfg w
                  (u\<lparr>callback_query := Some (q\<lparr>data := Some ''help''\<rparr>)\<rparr>) db) = db
   \<and> filter is_send
        (trace (handle_callback_query cfg w
                  (u\<lparr>callback_query := Some (q\<lparr>data := Some ''help''\<rparr>)\<rparr>) db)) = []
   \<and> filter is_search
        (trace (handle_callback_query cfg w
                  (u\<lparr>callback_query := Some (q\<lparr>data := Some ''help''\<rparr>)\<rparr>) db)) = []
   \<and> map length (create_channel_keyboard cfg) = [2, 2]"
  by (simp add: handle_callback_query_def is_send_def is_search_def quick_help_def NL_def
      robot_face_def cherry_blossom_def dizzy_def bullet_def palette_def
      create_channel_keyboard_def split: option.splits)

theorem help_press_edits_in_place_witness:
  "trace (handle_callback_query sample_config calm_world (aiko_press ''help'') empty_db)
     = [Answer,
        EditMessageCaption
          ([CHR 0x0A] @ [CHR 0xF0, CHR 0x9F, CHR 0xA4, CHR 0x96] @ '' **Quick Help**''
           @ [CHR 0x0A, CHR 0x0A] @ [CHR 0xF0, CHR 0x9F, CHR 0x8C, CHR 0xB8]
           @ '' Send me any message or photo for anime images!''
           @ [CHR 0x0A, CHR 0x0A] @ [CHR 0xF0, CHR 0x9F, CHR 0x92, CHR 0xAB]
           @ '' **Our Channels:**''
           @ [CHR 0x0A] @ [CHR 0xE2, CHR 0x80, CHR 0xA2] @ '' Main: @main''
           @ [CHR 0x0A] @ [CHR 0xE2, CHR 0x80, CHR 0xA2] @ '' Backup: @backup''
           @ [CHR 0x0A, CHR 0x0A] @ [CHR 0xF0, CHR 0x9F, CHR 0x8E, CHR 0xA8]
           @ '' Enjoy unlimited anime content!'' @ [CHR 0x0A] @ ''        '')
          (create_channel_keyboard sample_config)]
   \<and> raised (handle_callback_query sample_config calm_world (aiko_press ''help'') empty_db)
     = None"
  using help_press_edits_in_place
          [where cfg = sample_config and w = calm_world and u = "aiko_press ''help''"
             and q = "\<lparr>from_user = aiko, data = Some ''help''\<rparr>" and db = empty_db]
  by (simp add: aiko_press_def calm_world_def sample_config_def)

text \<open>
  The claim as stated has the message edited on every press. When the acknowledgement
  raises, the handler makes no further call.
\<close>

theorem help_press_unacknowledged_counterexample:
  "trace (handle_callback_query sample_config
            (calm_world\<lparr>answer_result := Some TelegramError\<rparr>) (aiko_press ''help'') empty_db)
     = [Answer]
   \<and> raised (handle_callback_query sample_config
            (calm_world\<lparr>answer_result := Some TelegramError\<rparr>) (aiko_press ''help'') empty_db)
     = Some TelegramError"
  by (simp add: handle_callback_query_def aiko_press_def calm_world_def)

end
